theory Spec2Isabelle
  imports Main "HOL-Library.Multiset" "HOL-Library.Sublist"
begin

section \<open>JavaScript values\<close>

text \<open>
  The data-access layer of the frontend (the module that starts with the comment
  "Data fetching layer that uses Firestore with backend fallback") handles values of
  type \<open>any\<close>: what it caches is whatever Firestore or the backend returned. They are
  modelled as JSON-like values. Numbers are integers here (time stamps in milliseconds,
  team numbers, years); fractional numbers and \<open>NaN\<close> are outside the model.
\<close>

datatype jsval =
    JUndefined
  | JNull
  | JBool bool
  | JNum int
  | JStr string
  | JArr "jsval list"
  | JObj "(string \<times> jsval) list"

text \<open>JavaScript truthiness, as used by \<open>if (cached)\<close>, \<open>if (!expiry)\<close> and
  \<open>result && ...\<close>.\<close>

fun truthy :: "jsval \<Rightarrow> bool" where
  "truthy JUndefined = False"
| "truthy JNull = False"
| "truthy (JBool b) = b"
| "truthy (JNum n) = (n \<noteq> 0)"
| "truthy (JStr s) = (s \<noteq> [])"
| "truthy (JArr xs) = True"
| "truthy (JObj fs) = True"

section \<open>The world the module runs in\<close>

text \<open>
  Every interaction with the outside is recorded in a trace: the three operations of the
  persistent key-value store (idb-keyval's \<open>get\<close>, \<open>set\<close>, \<open>del\<close>), the call of the
  Firestore query closure, the HTTP request to the backend and the decoding of its body.
\<close>

datatype event =
    StoreGet string
  | StoreSet string jsval
  | StoreDel string
  | Query
  | Fetch string
  | ReadJson

datatype exn = StoreError | FirestoreError | NetworkError | JsonError

record world =
  store :: "string \<rightharpoonup> jsval"
  clock :: int
  trace :: "event list"

text \<open>
  A promise of the outside world settles after some milliseconds, with a value or with
  a rejection.
\<close>

datatype 'a promise = Resolves nat 'a | Rejects nat exn

record response =
  ok :: bool
  json :: "jsval promise"

text \<open>
  The environment: which store operations fail (decided from the history so far and the
  operation, so that every operation is independently fallible), the two connection
  parameters \<open>NEXT_PUBLIC_FIREBASE_PROJECT_ID\<close> and \<open>NEXT_PUBLIC_FIREBASE_API_KEY\<close>
  of \<open>process.env\<close>, the \<open>PROD\<close> flag of constants.tsx, the backend's answer to a GET of
  a URL, and the calendar year \<open>new Date().getFullYear()\<close> of a time stamp.
\<close>

record env =
  store_fails :: "event list \<Rightarrow> event \<Rightarrow> bool"
  FIREBASE_PROJECT_ID :: "string option"
  FIREBASE_API_KEY :: "string option"
  PROD_flag :: bool
  fetch :: "string \<Rightarrow> response promise"
  getFullYear :: "int \<Rightarrow> int"

text \<open>
  An asynchronous function returns a value, throws, or leaves the model (\<open>Beyond\<close>: the
  code coerces a value in a way the model does not define). \<open>Beyond\<close> is not caught by
  \<open>try/catch\<close>.
\<close>

datatype 'a res = Ret 'a | Throw exn | Beyond

type_synonym 'a io = "world \<Rightarrow> 'a res \<times> world"

definition io_ret :: "'a \<Rightarrow> 'a io" where
  "io_ret x w = (Ret x, w)"

definition io_bind :: "'a io \<Rightarrow> ('a \<Rightarrow> 'b io) \<Rightarrow> 'b io" where
  "io_bind m f w =
     (case m w of
        (Ret x, w') \<Rightarrow> f x w'
      | (Throw e, w') \<Rightarrow> (Throw e, w')
      | (Beyond, w') \<Rightarrow> (Beyond, w'))"

definition io_catch :: "'a io \<Rightarrow> (exn \<Rightarrow> 'a io) \<Rightarrow> 'a io" where
  "io_catch m h w =
     (case m w of
        (Throw e, w') \<Rightarrow> h e w'
      | (Ret x, w') \<Rightarrow> (Ret x, w')
      | (Beyond, w') \<Rightarrow> (Beyond, w'))"

text \<open>
  Awaiting a promise of the outside world: the call is recorded, the clock advances by
  the time the promise took, and the promise's value is returned or its rejection thrown.
  The operations of the local store are taken to be instantaneous.
\<close>

definition settled :: "nat \<Rightarrow> event \<Rightarrow> world \<Rightarrow> world" where
  "settled ms ev w = w\<lparr>clock := clock w + int ms, trace := trace w @ [ev]\<rparr>"

definition await :: "event \<Rightarrow> 'a promise \<Rightarrow> 'a io" where
  "await ev p w =
     (case p of
        Resolves ms x \<Rightarrow> (Ret x, settled ms ev w)
      | Rejects ms err \<Rightarrow> (Throw err, settled ms ev w))"

section \<open>The persistent key-value store (idb-keyval)\<close>

text \<open>\<open>get\<close> of a key that was never set resolves to \<open>undefined\<close>.\<close>

definition idb_get :: "env \<Rightarrow> string \<Rightarrow> jsval io" where
  "idb_get e key w =
     (if store_fails e (trace w) (StoreGet key)
      then (Throw StoreError, w\<lparr>trace := trace w @ [StoreGet key]\<rparr>)
      else (Ret (case store w key of None \<Rightarrow> JUndefined | Some v \<Rightarrow> v),
            w\<lparr>trace := trace w @ [StoreGet key]\<rparr>))"

definition idb_set :: "env \<Rightarrow> string \<Rightarrow> jsval \<Rightarrow> unit io" where
  "idb_set e key v w =
     (if store_fails e (trace w) (StoreSet key v)
      then (Throw StoreError, w\<lparr>trace := trace w @ [StoreSet key v]\<rparr>)
      else (Ret (), w\<lparr>store := (store w)(key \<mapsto> v), trace := trace w @ [StoreSet key v]\<rparr>))"

definition idb_del :: "env \<Rightarrow> string \<Rightarrow> unit io" where
  "idb_del e key w =
     (if store_fails e (trace w) (StoreDel key)
      then (Throw StoreError, w\<lparr>trace := trace w @ [StoreDel key]\<rparr>)
      else (Ret (), w\<lparr>store := (store w)(key := None), trace := trace w @ [StoreDel key]\<rparr>))"

section \<open>The TTL cache: setWithExpiry and getWithExpiry\<close>

text \<open>
  \<open>setWithExpiry\<close> reads the clock, then writes the expiry record and the value record
  inside \<open>try\<close>; the \<open>catch\<close> only logs.
\<close>

definition setWithExpiry :: "env \<Rightarrow> string \<Rightarrow> jsval \<Rightarrow> int \<Rightarrow> unit io" where
  "setWithExpiry e key v ttl w =
     (let now = clock w in
      io_catch
        (io_bind (idb_set e (key @ ''_expiry'') (JNum (now + 1000 * ttl)))
           (\<lambda>_. idb_set e key v))
        (\<lambda>err. io_ret ()) w)"

text \<open>
  \<open>getWithExpiry\<close> has no \<open>try\<close>. The comparison \<open>now.getTime() > expiry\<close> is modelled
  for a numeric expiry record, which is what \<open>setWithExpiry\<close> writes; JavaScript would
  coerce a truthy record of another type to a number, which the model does not define.
\<close>

definition getWithExpiry :: "env \<Rightarrow> string \<Rightarrow> jsval io" where
  "getWithExpiry e key =
     io_bind (idb_get e (key @ ''_expiry''))
       (\<lambda>expiry w.
          if \<not> truthy expiry then io_ret JNull w
          else (case expiry of
                  JNum t \<Rightarrow>
                    if clock w > t
                    then io_bind (idb_del e (key @ ''_expiry''))
                           (\<lambda>_. io_bind (idb_del e key) (\<lambda>_. io_ret JNull)) w
                    else idb_get e key w
                | _ \<Rightarrow> (Beyond, w)))"

section \<open>The cache-aside resolver: cachedQuery\<close>

definition env_truthy :: "string option \<Rightarrow> bool" where
  "env_truthy v = (case v of None \<Rightarrow> False | Some s \<Rightarrow> s \<noteq> [])"

definition isFirebaseConfigured :: "env \<Rightarrow> bool" where
  "isFirebaseConfigured e =
     (env_truthy (FIREBASE_PROJECT_ID e) \<and> env_truthy (FIREBASE_API_KEY e))"

definition BACKEND_URL :: "env \<Rightarrow> string" where
  "BACKEND_URL e =
     (if PROD_flag e then ''https://api.ftcinsight.org/v3/site''
      else ''http://127.0.0.1:8000/v3/site'')"

text \<open>The test \<open>result && (Array.isArray(result) ? result.length > 0 : true)\<close>.\<close>

definition usable :: "jsval \<Rightarrow> bool" where
  "usable result =
     (truthy result \<and> (case result of JArr xs \<Rightarrow> length xs > 0 | _ \<Rightarrow> True))"

text \<open>
  The first \<open>try\<close> block of \<open>cachedQuery\<close>: \<open>Some result\<close> is its \<open>return result\<close>,
  \<open>None\<close> means that control falls through to the backend.
\<close>

definition tryFirestore :: "env \<Rightarrow> string \<Rightarrow> jsval promise \<Rightarrow> int \<Rightarrow> jsval option io" where
  "tryFirestore e cacheKey firebaseQuery expiry =
     io_catch
       (io_bind (await Query firebaseQuery)
          (\<lambda>result.
             if usable result
             then io_bind (setWithExpiry e cacheKey result expiry) (\<lambda>_. io_ret (Some result))
             else io_ret None))
       (\<lambda>error. io_ret None)"

text \<open>The second \<open>try\<close> block: the GET of \<open>BACKEND_URL + backendPath\<close>.\<close>

definition tryBackend :: "env \<Rightarrow> string \<Rightarrow> string \<Rightarrow> int \<Rightarrow> jsval option io" where
  "tryBackend e cacheKey backendPath expiry =
     io_catch
       (io_bind (await (Fetch (BACKEND_URL e @ backendPath)) (fetch e (BACKEND_URL e @ backendPath)))
          (\<lambda>r.
             if ok r
             then io_bind (await ReadJson (json r))
                    (\<lambda>data. io_bind (setWithExpiry e cacheKey data expiry)
                       (\<lambda>_. io_ret (Some data)))
             else io_ret None))
       (\<lambda>error. io_ret None)"

text \<open>
  \<open>cachedQuery\<close> itself. Its argument \<open>firebaseQuery\<close> is a closure that the resolver
  calls at most once; what is passed here is how the closure settles when it is called.
  The default of 300 seconds for \<open>expiry\<close> is not modelled: every caller passes a value.
\<close>

definition cachedQuery :: "env \<Rightarrow> string \<Rightarrow> jsval promise \<Rightarrow> string \<Rightarrow> int \<Rightarrow> jsval io" where
  "cachedQuery e cacheKey firebaseQuery backendPath expiry =
     io_bind (getWithExpiry e cacheKey)
       (\<lambda>cached.
          if truthy cached then io_ret cached
          else
            io_bind
              (if isFirebaseConfigured e then tryFirestore e cacheKey firebaseQuery expiry
               else io_ret None)
              (\<lambda>r1. case r1 of
                   Some result \<Rightarrow> io_ret result
                 | None \<Rightarrow>
                     io_bind (tryBackend e cacheKey backendPath expiry)
                       (\<lambda>r2. case r2 of
                            Some data \<Rightarrow> io_ret data
                          | None \<Rightarrow> io_ret JNull)))"

text \<open>What a trace says about the two sources and about the store.\<close>

fun fetched :: "event list \<Rightarrow> string list" where
  "fetched [] = []"
| "fetched (Fetch url # tr) = url # fetched tr"
| "fetched (ev # tr) = fetched tr"

fun queried :: "event list \<Rightarrow> nat" where
  "queried [] = 0"
| "queried (Query # tr) = Suc (queried tr)"
| "queried (ev # tr) = queried tr"

fun written :: "event list \<Rightarrow> (string \<times> jsval) list" where
  "written [] = []"
| "written (StoreSet key v # tr) = (key, v) # written tr"
| "written (ev # tr) = written tr"

section \<open>The resource query functions\<close>































section \<open>The Firestore queries: fetchCollection, fetchEventMatches, fetchTeamMatches\<close>

text \<open>
  Documents of the two collections that \<open>fetchTeamMatches\<close> reads, with the fields it
  uses. A slot of a match may be empty.
\<close>

record team_event =
  team :: int
  year :: int
  event :: string


datatype direction = Asc | Desc

datatype constraint =
    Where string jsval
  | OrderBy string direction
  | Limit int










section \<open>Observations on worlds\<close>

text \<open>
  The entry of a key is expired when its expiry record is a non-zero number below the
  clock: that is when \<open>getWithExpiry\<close> deletes the two records.
\<close>

definition expired :: "world \<Rightarrow> string \<Rightarrow> bool" where
  "expired w key =
     (case store w (key @ ''_expiry'') of
        Some (JNum t) \<Rightarrow> t \<noteq> 0 \<and> t < clock w
      | _ \<Rightarrow> False)"

text \<open>
  Between two worlds a source was asked: the Firestore query was called once more when
  the adapter is configured, the backend was fetched once more when it is not.
\<close>

definition asks_a_source :: "env \<Rightarrow> string \<Rightarrow> world \<Rightarrow> world \<Rightarrow> bool" where
  "asks_a_source e path w w' =
     (if isFirebaseConfigured e then queried (trace w') = Suc (queried (trace w))
      else fetched (trace w') = fetched (trace w) @ [BACKEND_URL e @ path])"


section \<open>Example inputs\<close>

text \<open>
  A store on which every operation succeeds, a team record, a backend that answers 200
  with a given body and one that answers 500, a browser environment built from these,
  and a world with an empty store on 2 February 2026.
\<close>

definition working :: "event list \<Rightarrow> event \<Rightarrow> bool" where
  "working h ev = False"

definition team_1234 :: jsval where
  "team_1234 = JObj [(''team'', JNum 1234), (''name'', JStr ''Robots'')]"

definition backend_200 :: "jsval \<Rightarrow> string \<Rightarrow> response promise" where
  "backend_200 body url = Resolves 80 \<lparr>ok = True, json = Resolves 2 body\<rparr>"

definition backend_500 :: "string \<Rightarrow> response promise" where
  "backend_500 url = Resolves 80 \<lparr>ok = False, json = Rejects 0 JsonError\<rparr>"

definition browser ::
  "(event list \<Rightarrow> event \<Rightarrow> bool) \<Rightarrow> bool \<Rightarrow> (string \<Rightarrow> response promise) \<Rightarrow> env" where
  "browser fails configured backend =
     \<lparr>store_fails = fails,
      FIREBASE_PROJECT_ID = (if configured then Some ''ftcinsight'' else None),
      FIREBASE_API_KEY = (if configured then Some ''secret'' else None),
      PROD_flag = True,
      fetch = backend,
      getFullYear = (\<lambda>t. 2026)\<rparr>"

definition cold :: world where
  "cold = \<lparr>store = Map.empty, clock = 1770000000000, trace = []\<rparr>"

text \<open>
  A store whose reads fail, and a world whose entry for team 1234 expired 10000 seconds
  ago.
\<close>

definition reads_fail :: "event list \<Rightarrow> event \<Rightarrow> bool" where
  "reads_fail h ev = (case ev of StoreGet key \<Rightarrow> True | _ \<Rightarrow> False)"

definition stale :: world where
  "stale =
     \<lparr>store = [''team_1234_v3'' \<mapsto> team_1234, ''team_1234_v3_expiry'' \<mapsto> JNum 1769990000000],
      clock = 1770000000000, trace = []\<rparr>"










section \<open>Traces, the TTL cache and the two attempts of the resolver\<close>

lemma fetched_append: "fetched (a @ b) = fetched a @ fetched b"
  by (induction a rule: fetched.induct) auto

lemma queried_append: "queried (a @ b) = queried a + queried b"
  by (induction a rule: queried.induct) auto

lemma written_append: "written (a @ b) = written a @ written b"
  by (induction a rule: written.induct) auto

text \<open>\<open>setWithExpiry\<close> never throws, whatever the store does.\<close>

lemma setWithExpiry_returns: "fst (setWithExpiry e key v ttl w) = Ret ()"
  by (simp add: setWithExpiry_def io_catch_def io_bind_def idb_set_def io_ret_def Let_def)

lemma bind_setWithExpiry:
  "io_bind (setWithExpiry e key v ttl) f w = f () (snd (setWithExpiry e key v ttl w))"
proof (cases "setWithExpiry e key v ttl w")
  case (Pair r w')
  with setWithExpiry_returns [of e key v ttl w] have "r = Ret ()" by simp
  with Pair show ?thesis by (simp add: io_bind_def)
qed

lemma setWithExpiry_working:
  assumes "\<forall>h ev. \<not> store_fails e h ev"
  shows "setWithExpiry e key v ttl w =
          (Ret (), w\<lparr>store := (store w)(key @ ''_expiry'' \<mapsto> JNum (clock w + 1000 * ttl), key \<mapsto> v),
                     trace := trace w @ [StoreSet (key @ ''_expiry'') (JNum (clock w + 1000 * ttl)),
                                         StoreSet key v]\<rparr>)"
  using assms
  by (simp add: setWithExpiry_def io_catch_def io_bind_def idb_set_def io_ret_def Let_def)

lemma setWithExpiry_sources:
  "fetched (trace (snd (setWithExpiry e key v ttl w))) = fetched (trace w) \<and>
   queried (trace (snd (setWithExpiry e key v ttl w))) = queried (trace w) \<and>
   clock (snd (setWithExpiry e key v ttl w)) = clock w"
  by (simp add: setWithExpiry_def io_catch_def io_bind_def idb_set_def io_ret_def Let_def
        fetched_append queried_append)

lemma getWithExpiry_sources:
  "fetched (trace (snd (getWithExpiry e key w))) = fetched (trace w) \<and>
   queried (trace (snd (getWithExpiry e key w))) = queried (trace w) \<and>
   written (trace (snd (getWithExpiry e key w))) = written (trace w) \<and>
   clock (snd (getWithExpiry e key w)) = clock w"
  by (simp add: getWithExpiry_def io_bind_def idb_get_def idb_del_def io_ret_def
        fetched_append queried_append written_append split: jsval.splits)

lemma getWithExpiry_clock:
  "getWithExpiry e key w = (r, w1) \<Longrightarrow>
     clock w1 = clock w \<and> fetched (trace w1) = fetched (trace w) \<and>
     queried (trace w1) = queried (trace w) \<and> written (trace w1) = written (trace w)"
  using getWithExpiry_sources [of e key w] by simp

lemma read_after_write:
  assumes "\<forall>h ev. \<not> store_fails e h ev" "0 < ttl" "0 \<le> clock w" "t \<le> clock w + 1000 * ttl"
  shows "fst (getWithExpiry e key (snd (setWithExpiry e key v ttl w)\<lparr>clock := t\<rparr>)) = Ret v"
  using assms
  by (simp add: setWithExpiry_working getWithExpiry_def io_bind_def idb_get_def idb_del_def io_ret_def)

lemma tryFirestore_cases:
  "tryFirestore e key q ttl w =
     (case q of
        Rejects ms x \<Rightarrow> (Ret None, settled ms Query w)
      | Resolves ms r \<Rightarrow>
          if usable r then (Ret (Some r), snd (setWithExpiry e key r ttl (settled ms Query w)))
          else (Ret None, settled ms Query w))"
proof (cases q)
  case (Resolves ms r)
  have "io_bind (await Query q) f w = f r (settled ms Query w)" for f :: "jsval \<Rightarrow> jsval option io"
    by (simp add: Resolves io_bind_def await_def)
  then show ?thesis
    by (simp add: Resolves tryFirestore_def io_catch_def bind_setWithExpiry io_ret_def)
next
  case (Rejects ms x)
  then show ?thesis
    by (simp add: tryFirestore_def io_catch_def io_bind_def await_def io_ret_def)
qed

lemma tryBackend_cases:
  "tryBackend e key path ttl w =
     (case fetch e (BACKEND_URL e @ path) of
        Rejects ms x \<Rightarrow> (Ret None, settled ms (Fetch (BACKEND_URL e @ path)) w)
      | Resolves ms r \<Rightarrow>
          if ok r then
            (case json r of
               Rejects ms' x \<Rightarrow>
                 (Ret None, settled ms' ReadJson (settled ms (Fetch (BACKEND_URL e @ path)) w))
             | Resolves ms' d \<Rightarrow>
                 (Ret (Some d),
                  snd (setWithExpiry e key d ttl
                         (settled ms' ReadJson (settled ms (Fetch (BACKEND_URL e @ path)) w)))))
          else (Ret None, settled ms (Fetch (BACKEND_URL e @ path)) w))"
proof -
  have aw: "io_bind (await ev p) f w0 =
            (case p of Resolves ms x \<Rightarrow> f x (settled ms ev w0)
                     | Rejects ms x \<Rightarrow> (Throw x, settled ms ev w0))"
    for ev and p :: "'a promise" and f :: "'a \<Rightarrow> jsval option io" and w0
    by (simp add: io_bind_def await_def split: promise.splits)
  show ?thesis
    by (simp add: tryBackend_def io_catch_def aw bind_setWithExpiry io_ret_def
          split: promise.splits)
qed

lemma cachedQuery_hit:
  "getWithExpiry e key w = (Ret c, w1) \<Longrightarrow> truthy c \<Longrightarrow>
     cachedQuery e key q path ttl w = (Ret c, w1)"
  by (simp add: cachedQuery_def io_bind_def io_ret_def)

lemma cachedQuery_miss:
  "getWithExpiry e key w = (Ret c, w1) \<Longrightarrow> \<not> truthy c \<Longrightarrow>
   cachedQuery e key q path ttl w =
     (case (if isFirebaseConfigured e then tryFirestore e key q ttl w1 else (Ret None, w1)) of
        (Ret (Some result), w2) \<Rightarrow> (Ret result, w2)
      | (Ret None, w2) \<Rightarrow>
          (case tryBackend e key path ttl w2 of
             (Ret (Some d), w3) \<Rightarrow> (Ret d, w3)
           | (Ret None, w3) \<Rightarrow> (Ret JNull, w3)
           | (Throw x, w3) \<Rightarrow> (Throw x, w3)
           | (Beyond, w3) \<Rightarrow> (Beyond, w3))
      | (Throw x, w2) \<Rightarrow> (Throw x, w2)
      | (Beyond, w2) \<Rightarrow> (Beyond, w2))"
  by (simp add: cachedQuery_def io_bind_def io_ret_def split: prod.splits res.splits option.splits)

lemma getWithExpiry_store:
  assumes "getWithExpiry e key w = (Ret c, w1)"
  shows "store w1 = (if expired w key then (store w)(key @ ''_expiry'' := None, key := None) else store w)"
  using assms
  by (auto simp add: getWithExpiry_def io_bind_def idb_get_def idb_del_def io_ret_def expired_def
        split: if_splits option.splits jsval.splits)

lemma missing_parameter:
  "FIREBASE_PROJECT_ID e = None \<or> FIREBASE_API_KEY e = None \<Longrightarrow> \<not> isFirebaseConfigured e"
  by (auto simp add: isFirebaseConfigured_def env_truthy_def)

lemma usable_results: "usable (JArr (x # xs))" "usable (JObj fs)"
  by (simp_all add: usable_def)

text \<open>A failing read of the expiry record reaches the caller of the resolver.\<close>

lemma read_failure_propagates:
  "store_fails e (trace w) (StoreGet (key @ ''_expiry'')) \<Longrightarrow>
     fst (cachedQuery e key q path ttl w) = Throw StoreError"
  by (simp add: cachedQuery_def getWithExpiry_def io_bind_def idb_get_def)

lemma unusable_empty: "\<not> usable (JArr [])"
  by (simp add: usable_def)

lemma falsy_unusable: "\<not> truthy r \<Longrightarrow> \<not> usable r"
  by (simp add: usable_def)

lemma cachedQuery_fallback:
  assumes miss: "getWithExpiry e key w = (Ret c, w1)" "\<not> truthy c"
    and out: "\<not> isFirebaseConfigured e \<or> (\<exists>ms x. q = Rejects ms x) \<or> (\<exists>ms r. q = Resolves ms r \<and> \<not> usable r)"
  shows "\<exists>w2. store w2 = store w1 \<and> clock w1 \<le> clock w2
           \<and> fetched (trace w2) = fetched (trace w1)
           \<and> written (trace w2) = written (trace w1)
           \<and> queried (trace w2) = (if isFirebaseConfigured e then Suc (queried (trace w1)) else queried (trace w1))
           \<and> cachedQuery e key q path ttl w =
               (case tryBackend e key path ttl w2 of
                  (Ret (Some d), w3) \<Rightarrow> (Ret d, w3)
                | (Ret None, w3) \<Rightarrow> (Ret JNull, w3)
                | (Throw x, w3) \<Rightarrow> (Throw x, w3)
                | (Beyond, w3) \<Rightarrow> (Beyond, w3))"
proof (cases "isFirebaseConfigured e")
  case False
  then show ?thesis using miss by (intro exI [of _ w1]) (simp add: cachedQuery_miss)
next
  case True
  with out consider ms x where "q = Rejects ms x" | ms r where "q = Resolves ms r" "\<not> usable r"
    by blast
  then show ?thesis
  proof cases
    case 1
    then show ?thesis using miss True
      by (intro exI [of _ "settled ms Query w1"])
         (simp add: cachedQuery_miss tryFirestore_cases settled_def fetched_append written_append queried_append)
  next
    case 2
    then show ?thesis using miss True
      by (intro exI [of _ "settled ms Query w1"])
         (simp add: cachedQuery_miss tryFirestore_cases settled_def fetched_append written_append queried_append)
  qed
qed

lemma tryBackend_sources:
  "fetched (trace (snd (tryBackend e key path ttl w))) = fetched (trace w) @ [BACKEND_URL e @ path]
   \<and> queried (trace (snd (tryBackend e key path ttl w))) = queried (trace w)"
  using setWithExpiry_sources [of e key _ ttl]
  by (simp add: tryBackend_cases settled_def fetched_append queried_append split: promise.splits)

lemma cachedQuery_after_tryBackend:
  assumes "cachedQuery e key q path ttl w =
               (case tryBackend e key path ttl w2 of
                  (Ret (Some d), w3) \<Rightarrow> (Ret d, w3)
                | (Ret None, w3) \<Rightarrow> (Ret JNull, w3)
                | (Throw x, w3) \<Rightarrow> (Throw x, w3)
                | (Beyond, w3) \<Rightarrow> (Beyond, w3))"
  shows "snd (cachedQuery e key q path ttl w) = snd (tryBackend e key path ttl w2)"
  using assms by (simp split: prod.splits res.splits option.splits)

lemma tryBackend_fails:
  assumes "(\<exists>ms x. fetch e (BACKEND_URL e @ path) = Rejects ms x)
         \<or> (\<exists>ms r. fetch e (BACKEND_URL e @ path) = Resolves ms r
                \<and> (\<not> ok r \<or> (\<exists>ms' x. json r = Rejects ms' x)))"
  shows "fst (tryBackend e key path ttl w) = Ret None
       \<and> store (snd (tryBackend e key path ttl w)) = store w
       \<and> written (trace (snd (tryBackend e key path ttl w))) = written (trace w)"
  using assms
  by (auto simp add: tryBackend_cases settled_def written_append)

lemma tryFirestore_sources:
  "queried (trace (snd (tryFirestore e key q ttl w))) = Suc (queried (trace w))"
  using setWithExpiry_sources [of e key _ ttl]
  by (simp add: tryFirestore_cases settled_def queried_append split: promise.splits)

lemma tryFirestore_returns: "\<exists>r. fst (tryFirestore e key q ttl w) = Ret r"
  by (simp add: tryFirestore_cases split: promise.splits)

lemma tryBackend_returns: "\<exists>r. fst (tryBackend e key path ttl w) = Ret r"
  by (simp add: tryBackend_cases split: promise.splits)

lemma miss_asks_a_source:
  assumes miss: "getWithExpiry e key w = (Ret c, w1)" "\<not> truthy c"
  shows "asks_a_source e path w (snd (cachedQuery e key q path ttl w))"
proof (cases "isFirebaseConfigured e")
  case False
  have "snd (cachedQuery e key q path ttl w) = snd (tryBackend e key path ttl w1)"
    using miss False by (simp add: cachedQuery_miss split: prod.splits res.splits option.splits)
  then show ?thesis
    using False tryBackend_sources [of e key path ttl w1] getWithExpiry_clock [OF miss(1)]
    by (simp add: asks_a_source_def)
next
  case True
  obtain r w2 where tf: "tryFirestore e key q ttl w1 = (Ret r, w2)"
    using tryFirestore_returns [of e key q ttl w1] by (cases "tryFirestore e key q ttl w1") auto
  have q2: "queried (trace w2) = Suc (queried (trace w))"
    using tryFirestore_sources [of e key q ttl w1] tf getWithExpiry_clock [OF miss(1)] by simp
  have "queried (trace (snd (cachedQuery e key q path ttl w))) = queried (trace w2)"
  proof (cases r)
    case None
    have "snd (cachedQuery e key q path ttl w) = snd (tryBackend e key path ttl w2)"
      using miss True tf None
      by (simp add: cachedQuery_miss split: prod.splits res.splits option.splits)
    then show ?thesis using tryBackend_sources [of e key path ttl w2] by simp
  next
    case (Some x)
    then show ?thesis using miss True tf by (simp add: cachedQuery_miss)
  qed
  then show ?thesis using True q2 by (simp add: asks_a_source_def)
qed

text \<open>Evaluation of the example inputs.\<close>

lemmas run =
  cachedQuery_def getWithExpiry_def setWithExpiry_def tryFirestore_def tryBackend_def
  io_bind_def io_catch_def io_ret_def await_def settled_def idb_get_def idb_set_def idb_del_def
  isFirebaseConfigured_def env_truthy_def BACKEND_URL_def usable_def
  browser_def working_def cold_def stale_def team_1234_def backend_200_def backend_500_def

lemma browser_works: "\<forall>h ev. \<not> store_fails (browser working c b) h ev"
  by (simp add: browser_def working_def)

lemma browser_configured: "isFirebaseConfigured (browser f c b) = c"
  by (simp add: isFirebaseConfigured_def env_truthy_def browser_def)

lemma cold_miss:
  "getWithExpiry (browser working c b) ''team_1234_v3'' cold
     = (Ret JNull, cold\<lparr>trace := [StoreGet ''team_1234_v3_expiry'']\<rparr>)"
  by (simp add: getWithExpiry_def io_bind_def idb_get_def io_ret_def browser_def working_def cold_def)

section \<open>The resolver\<close>

text \<open>
  Claim C2. If the cache misses, the primary adapter is configured and the primary query
  resolves to a usable result (which a non-empty array and every record are), then the
  resolver returns that result, and the world it leaves is the one that \<open>setWithExpiry\<close>
  leaves when it is run on the result after the query settled; the backend is never
  fetched; and on a store that works, the value record holds the result and the expiry
  record holds the time of the write plus \<open>1000 * ttl\<close>.
\<close>

theorem primary_result_is_cached_and_returned:
  assumes miss: "getWithExpiry e cacheKey w = (Ret c, w1)" "\<not> truthy c"
    and configured: "isFirebaseConfigured e"
    and primary: "firebaseQuery = Resolves ms result" "usable result"
  shows "cachedQuery e cacheKey firebaseQuery backendPath ttl w =
           (Ret result, snd (setWithExpiry e cacheKey result ttl (settled ms Query w1)))
         \<and> fetched (trace (snd (cachedQuery e cacheKey firebaseQuery backendPath ttl w)))
             = fetched (trace w)
         \<and> ((\<forall>h ev. \<not> store_fails e h ev) \<longrightarrow>
              store (snd (cachedQuery e cacheKey firebaseQuery backendPath ttl w)) cacheKey
                = Some result
            \<and> store (snd (cachedQuery e cacheKey firebaseQuery backendPath ttl w))
                (cacheKey @ ''_expiry'')
                = Some (JNum (clock w + int ms + 1000 * ttl)))"
proof -
  let ?w2 = "settled ms Query w1"
  have eq: "cachedQuery e cacheKey firebaseQuery backendPath ttl w =
              (Ret result, snd (setWithExpiry e cacheKey result ttl ?w2))"
    using miss configured primary by (simp add: cachedQuery_miss tryFirestore_cases)
  have w1: "clock w1 = clock w" "fetched (trace w1) = fetched (trace w)"
    using getWithExpiry_clock [OF miss(1)] by simp_all
  have src: "fetched (trace (snd (setWithExpiry e cacheKey result ttl ?w2))) = fetched (trace w)"
    using setWithExpiry_sources [of e cacheKey result ttl ?w2] w1
    by (simp add: settled_def fetched_append)
  have st: "store (snd (setWithExpiry e cacheKey result ttl ?w2)) cacheKey = Some result
          \<and> store (snd (setWithExpiry e cacheKey result ttl ?w2)) (cacheKey @ ''_expiry'')
              = Some (JNum (clock w + int ms + 1000 * ttl))"
    if "\<forall>h ev. \<not> store_fails e h ev"
    using that w1 by (simp add: setWithExpiry_working settled_def)
  show ?thesis using eq src st by simp
qed

theorem primary_result_is_cached_and_returned_witness:
  "cachedQuery (browser working True backend_500) ''team_1234_v3'' (Resolves 35 team_1234)
       ''/v3/site/teams/1234'' 3600 cold
     = (Ret team_1234,
        snd (setWithExpiry (browser working True backend_500) ''team_1234_v3'' team_1234 3600
               (settled 35 Query (cold\<lparr>trace := [StoreGet ''team_1234_v3_expiry'']\<rparr>))))
   \<and> fetched (trace (snd (cachedQuery (browser working True backend_500) ''team_1234_v3''
                            (Resolves 35 team_1234) ''/v3/site/teams/1234'' 3600 cold))) = []
   \<and> store (snd (cachedQuery (browser working True backend_500) ''team_1234_v3''
                            (Resolves 35 team_1234) ''/v3/site/teams/1234'' 3600 cold))
        ''team_1234_v3_expiry'' = Some (JNum 1770003600035)"
proof -
  have miss: "getWithExpiry (browser working True backend_500) ''team_1234_v3'' cold
                = (Ret JNull, cold\<lparr>trace := [StoreGet ''team_1234_v3_expiry'']\<rparr>)"
    by (simp add: getWithExpiry_def io_bind_def idb_get_def io_ret_def browser_def working_def
          cold_def)
  have falsy: "\<not> truthy JNull" by simp
  have conf: "isFirebaseConfigured (browser working True backend_500)"
    by (simp add: isFirebaseConfigured_def env_truthy_def browser_def)
  have us: "usable team_1234" by (simp add: usable_def team_1234_def)
  have nf: "\<forall>h ev. \<not> store_fails (browser working True backend_500) h ev"
    by (simp add: browser_def working_def)
  note T = primary_result_is_cached_and_returned
    [OF miss falsy conf refl us, where backendPath = "''/v3/site/teams/1234''" and ttl = 3600
      and ms = 35]
  have clk: "clock cold = 1770000000000" and tr: "fetched (trace cold) = []"
    by (simp_all add: cold_def)
  from T have a: "cachedQuery (browser working True backend_500) ''team_1234_v3''
       (Resolves 35 team_1234) ''/v3/site/teams/1234'' 3600 cold
     = (Ret team_1234,
        snd (setWithExpiry (browser working True backend_500) ''team_1234_v3'' team_1234 3600
               (settled 35 Query (cold\<lparr>trace := [StoreGet ''team_1234_v3_expiry'']\<rparr>))))"
    by (rule conjunct1)
  from T [THEN conjunct2, THEN conjunct1] tr
  have b: "fetched (trace (snd (cachedQuery (browser working True backend_500) ''team_1234_v3''
                            (Resolves 35 team_1234) ''/v3/site/teams/1234'' 3600 cold))) = []"
    by simp
  from T [THEN conjunct2, THEN conjunct2] nf clk
  have c: "store (snd (cachedQuery (browser working True backend_500) ''team_1234_v3''
                            (Resolves 35 team_1234) ''/v3/site/teams/1234'' 3600 cold))
        ''team_1234_v3_expiry'' = Some (JNum 1770003600035)"
    by simp
  from a b c show ?thesis by blast
qed

text \<open>
  Claim C3. On a cache miss, when a connection parameter is missing, or the primary
  query throws, or it returns the empty array, the backend is fetched exactly once, at
  \<open>BACKEND_URL + backendPath\<close>; with a parameter missing the Firestore query is never
  called; and when the response is ok and its body decodes to \<open>d\<close>, the resolver
  returns \<open>d\<close> after running \<open>setWithExpiry\<close> on it, which on a store that works
  leaves \<open>d\<close> in the value record and the time of the write plus \<open>1000 * ttl\<close> in the
  expiry record.
\<close>

theorem fallback_is_fetched_once:
  assumes miss: "getWithExpiry e cacheKey w = (Ret c, w1)" "\<not> truthy c"
    and primary_out:
      "FIREBASE_PROJECT_ID e = None \<or> FIREBASE_API_KEY e = None
       \<or> (\<exists>ms x. firebaseQuery = Rejects ms x) \<or> (\<exists>ms. firebaseQuery = Resolves ms (JArr []))"
    and w': "w' = snd (cachedQuery e cacheKey firebaseQuery backendPath ttl w)"
  shows "fetched (trace w') = fetched (trace w) @ [BACKEND_URL e @ backendPath]
       \<and> (FIREBASE_PROJECT_ID e = None \<or> FIREBASE_API_KEY e = None \<longrightarrow>
            queried (trace w') = queried (trace w))
       \<and> (\<forall>ms r ms' d.
            fetch e (BACKEND_URL e @ backendPath) = Resolves ms r \<and> ok r \<and> json r = Resolves ms' d \<longrightarrow>
              fst (cachedQuery e cacheKey firebaseQuery backendPath ttl w) = Ret d
            \<and> (\<exists>w3. w' = snd (setWithExpiry e cacheKey d ttl w3) \<and> store w3 = store w1)
            \<and> ((\<forall>h ev. \<not> store_fails e h ev) \<longrightarrow>
                 store w' cacheKey = Some d
               \<and> store w' (cacheKey @ ''_expiry'') = Some (JNum (clock w' + 1000 * ttl))))"
proof -
  have out: "\<not> isFirebaseConfigured e \<or> (\<exists>ms x. firebaseQuery = Rejects ms x)
             \<or> (\<exists>ms r. firebaseQuery = Resolves ms r \<and> \<not> usable r)"
    using primary_out missing_parameter [of e] unusable_empty by blast
  from cachedQuery_fallback [OF miss out, of backendPath ttl]
  obtain w2 where w2: "store w2 = store w1" "fetched (trace w2) = fetched (trace w1)"
      "queried (trace w2) = (if isFirebaseConfigured e then Suc (queried (trace w1)) else queried (trace w1))"
    and eq: "cachedQuery e cacheKey firebaseQuery backendPath ttl w =
               (case tryBackend e cacheKey backendPath ttl w2 of
                  (Ret (Some d), w3) \<Rightarrow> (Ret d, w3)
                | (Ret None, w3) \<Rightarrow> (Ret JNull, w3)
                | (Throw x, w3) \<Rightarrow> (Throw x, w3)
                | (Beyond, w3) \<Rightarrow> (Beyond, w3))"
    by blast
  have w'eq: "w' = snd (tryBackend e cacheKey backendPath ttl w2)"
    unfolding w' using eq by (rule cachedQuery_after_tryBackend)
  note g = getWithExpiry_clock [OF miss(1)]
  have a: "fetched (trace w') = fetched (trace w) @ [BACKEND_URL e @ backendPath]"
    using tryBackend_sources [of e cacheKey backendPath ttl w2] w2 g by (simp add: w'eq)
  have b: "queried (trace w') = queried (trace w)"
    if "FIREBASE_PROJECT_ID e = None \<or> FIREBASE_API_KEY e = None"
    using tryBackend_sources [of e cacheKey backendPath ttl w2] w2 g missing_parameter [OF that]
    by (simp add: w'eq)
  have c: "fst (cachedQuery e cacheKey firebaseQuery backendPath ttl w) = Ret d
            \<and> (\<exists>w3. w' = snd (setWithExpiry e cacheKey d ttl w3) \<and> store w3 = store w1)
            \<and> ((\<forall>h ev. \<not> store_fails e h ev) \<longrightarrow>
                 store w' cacheKey = Some d
               \<and> store w' (cacheKey @ ''_expiry'') = Some (JNum (clock w' + 1000 * ttl)))"
    if r: "fetch e (BACKEND_URL e @ backendPath) = Resolves ms r" "ok r" "json r = Resolves ms' d"
    for ms r ms' d
  proof -
    let ?w3 = "settled ms' ReadJson (settled ms (Fetch (BACKEND_URL e @ backendPath)) w2)"
    have tb: "tryBackend e cacheKey backendPath ttl w2 = (Ret (Some d), snd (setWithExpiry e cacheKey d ttl ?w3))"
      using r by (simp add: tryBackend_cases)
    have 1: "fst (cachedQuery e cacheKey firebaseQuery backendPath ttl w) = Ret d"
      using eq tb by simp
    have 2: "w' = snd (setWithExpiry e cacheKey d ttl ?w3)"
      using w'eq tb by simp
    have 3: "store ?w3 = store w1" using w2 by (simp add: settled_def)
    have 4: "store w' cacheKey = Some d
               \<and> store w' (cacheKey @ ''_expiry'') = Some (JNum (clock w' + 1000 * ttl))"
      if "\<forall>h ev. \<not> store_fails e h ev"
      unfolding 2 using that by (simp add: setWithExpiry_working)
    from 1 2 3 4 show ?thesis by blast
  qed
  from a b c show ?thesis by blast
qed

theorem fallback_is_fetched_once_witness:
  "fetched (trace (snd (cachedQuery (browser working False (backend_200 team_1234)) ''team_1234_v3''
       (Rejects 35 FirestoreError) ''/v3/site/teams/1234'' 3600 cold)))
     = [''https://api.ftcinsight.org/v3/site/v3/site/teams/1234'']
   \<and> queried (trace (snd (cachedQuery (browser working False (backend_200 team_1234)) ''team_1234_v3''
       (Rejects 35 FirestoreError) ''/v3/site/teams/1234'' 3600 cold))) = 0
   \<and> fst (cachedQuery (browser working False (backend_200 team_1234)) ''team_1234_v3''
       (Rejects 35 FirestoreError) ''/v3/site/teams/1234'' 3600 cold) = Ret team_1234
   \<and> store (snd (cachedQuery (browser working False (backend_200 team_1234)) ''team_1234_v3''
       (Rejects 35 FirestoreError) ''/v3/site/teams/1234'' 3600 cold)) ''team_1234_v3''
     = Some team_1234
   \<and> store (snd (cachedQuery (browser working False (backend_200 team_1234)) ''team_1234_v3''
       (Rejects 35 FirestoreError) ''/v3/site/teams/1234'' 3600 cold)) ''team_1234_v3_expiry''
     = Some (JNum 1770003600082)"
proof -
  let ?e = "browser working False (backend_200 team_1234)"
  let ?w' = "snd (cachedQuery ?e ''team_1234_v3'' (Rejects 35 FirestoreError) ''/v3/site/teams/1234'' 3600 cold)"
  have falsy: "\<not> truthy JNull" by simp
  have out: "FIREBASE_PROJECT_ID ?e = None \<or> FIREBASE_API_KEY ?e = None
       \<or> (\<exists>ms x. Rejects 35 FirestoreError = (Rejects ms x :: jsval promise))
       \<or> (\<exists>ms. Rejects 35 FirestoreError = Resolves ms (JArr []))"
    by (simp add: browser_def)
  note T = fallback_is_fetched_once [OF cold_miss falsy out refl,
      where backendPath = "''/v3/site/teams/1234''" and ttl = 3600]
  have missing: "FIREBASE_PROJECT_ID ?e = None \<or> FIREBASE_API_KEY ?e = None"
    by (simp add: browser_def)
  have resp: "fetch ?e (BACKEND_URL ?e @ ''/v3/site/teams/1234'')
                = Resolves 80 \<lparr>ok = True, json = Resolves 2 team_1234\<rparr>
              \<and> ok \<lparr>ok = True, json = Resolves 2 team_1234\<rparr>
              \<and> json \<lparr>ok = True, json = Resolves 2 team_1234\<rparr> = Resolves 2 team_1234"
    by (simp add: browser_def backend_200_def)
  have clk: "clock ?w' = 1770000000082" by (simp add: run)
  have a: "fetched (trace ?w') = [''https://api.ftcinsight.org/v3/site/v3/site/teams/1234'']"
    using T [THEN conjunct1] by (simp add: cold_def BACKEND_URL_def browser_def)
  have b: "queried (trace ?w') = 0"
    using T [THEN conjunct2, THEN conjunct1] missing by (simp add: cold_def)
  have c: "fst (cachedQuery ?e ''team_1234_v3'' (Rejects 35 FirestoreError) ''/v3/site/teams/1234'' 3600 cold)
             = Ret team_1234
         \<and> store ?w' ''team_1234_v3'' = Some team_1234
         \<and> store ?w' ''team_1234_v3_expiry'' = Some (JNum 1770003600082)"
    using T [THEN conjunct2, THEN conjunct2, rule_format, OF resp] browser_works [of False "backend_200 team_1234"] clk
    by simp
  from a b c show ?thesis by blast
qed

text \<open>
  Claim C4, as amended. When the cache read returns a miss and both sources fail, the
  resolver returns \<open>null\<close> and performs no \<open>set\<close> on the store; the store is as it was,
  except that an expired entry of the key has been evicted by the read.
\<close>

theorem both_sources_fail:
  assumes miss: "getWithExpiry e cacheKey w = (Ret c, w1)" "\<not> truthy c"
    and primary_out:
      "\<not> isFirebaseConfigured e \<or> (\<exists>ms x. firebaseQuery = Rejects ms x)
       \<or> (\<exists>ms r. firebaseQuery = Resolves ms r \<and> \<not> usable r)"
    and backend_out:
      "(\<exists>ms x. fetch e (BACKEND_URL e @ backendPath) = Rejects ms x)
       \<or> (\<exists>ms r. fetch e (BACKEND_URL e @ backendPath) = Resolves ms r
              \<and> (\<not> ok r \<or> (\<exists>ms' x. json r = Rejects ms' x)))"
    and w': "w' = snd (cachedQuery e cacheKey firebaseQuery backendPath ttl w)"
  shows "fst (cachedQuery e cacheKey firebaseQuery backendPath ttl w) = Ret JNull
       \<and> written (trace w') = written (trace w)
       \<and> store w' = (if expired w cacheKey
                      then (store w)(cacheKey @ ''_expiry'' := None, cacheKey := None)
                      else store w)"
proof -
  from cachedQuery_fallback [OF miss primary_out, of backendPath ttl]
  obtain w2 where w2: "store w2 = store w1" "written (trace w2) = written (trace w1)"
    and eq: "cachedQuery e cacheKey firebaseQuery backendPath ttl w =
               (case tryBackend e cacheKey backendPath ttl w2 of
                  (Ret (Some d), w3) \<Rightarrow> (Ret d, w3)
                | (Ret None, w3) \<Rightarrow> (Ret JNull, w3)
                | (Throw x, w3) \<Rightarrow> (Throw x, w3)
                | (Beyond, w3) \<Rightarrow> (Beyond, w3))"
    by blast
  note tb = tryBackend_fails [OF backend_out, of cacheKey ttl w2]
  have w'eq: "w' = snd (tryBackend e cacheKey backendPath ttl w2)"
    unfolding w' using eq by (rule cachedQuery_after_tryBackend)
  have 1: "fst (cachedQuery e cacheKey firebaseQuery backendPath ttl w) = Ret JNull"
    using eq tb by (cases "tryBackend e cacheKey backendPath ttl w2") simp
  have 2: "written (trace w') = written (trace w)"
    using tb w2 getWithExpiry_clock [OF miss(1)] by (simp add: w'eq)
  have 3: "store w' = store w1" using tb w2 by (simp add: w'eq)
  from 1 2 3 getWithExpiry_store [OF miss(1)] show ?thesis by simp
qed

theorem both_sources_fail_witness:
  "fst (cachedQuery (browser working True backend_500) ''team_1234_v3''
       (Rejects 35 FirestoreError) ''/v3/site/teams/1234'' 3600 cold) = Ret JNull
   \<and> written (trace (snd (cachedQuery (browser working True backend_500) ''team_1234_v3''
       (Rejects 35 FirestoreError) ''/v3/site/teams/1234'' 3600 cold))) = []
   \<and> store (snd (cachedQuery (browser working True backend_500) ''team_1234_v3''
       (Rejects 35 FirestoreError) ''/v3/site/teams/1234'' 3600 cold)) = store cold"
proof -
  let ?e = "browser working True backend_500"
  have falsy: "\<not> truthy JNull" by simp
  have p: "\<not> isFirebaseConfigured ?e \<or> (\<exists>ms x. Rejects 35 FirestoreError = (Rejects ms x :: jsval promise))
       \<or> (\<exists>ms r. Rejects 35 FirestoreError = Resolves ms r \<and> \<not> usable r)"
    by simp
  have b: "(\<exists>ms x. fetch ?e (BACKEND_URL ?e @ ''/v3/site/teams/1234'') = Rejects ms x)
       \<or> (\<exists>ms r. fetch ?e (BACKEND_URL ?e @ ''/v3/site/teams/1234'') = Resolves ms r
              \<and> (\<not> ok r \<or> (\<exists>ms' x. json r = Rejects ms' x)))"
    by (simp add: browser_def backend_500_def)
  have ne: "\<not> expired cold ''team_1234_v3''" "written (trace cold) = []"
    by (simp_all add: expired_def cold_def)
  from both_sources_fail [OF cold_miss falsy p b refl] ne show ?thesis by simp
qed

text \<open>
  Claim C4 as stated fails where the read evicts: with the expired entry of \<open>stale\<close>, the
  primary query throwing and the backend answering 500, the value record is gone after
  the call.
\<close>

theorem eviction_changes_the_store:
  "fst (cachedQuery (browser working True backend_500) ''team_1234_v3''
       (Rejects 35 FirestoreError) ''/v3/site/teams/1234'' 3600 stale) = Ret JNull
   \<and> store stale ''team_1234_v3'' = Some team_1234
   \<and> store (snd (cachedQuery (browser working True backend_500) ''team_1234_v3''
       (Rejects 35 FirestoreError) ''/v3/site/teams/1234'' 3600 stale)) ''team_1234_v3'' = None"
  by (simp add: run)

text \<open>
  Claim C10. The hit test and the test of the primary result are truthiness tests: a
  falsy value that is stored and unexpired is read back but a source is asked all the
  same; a falsy primary result sends the resolver to the backend; and a falsy body of
  the backend is returned and written to the cache, yet the next call, within the time
  to live, asks a source again.
\<close>

theorem falsy_values_are_treated_as_absent:
  "(\<forall>v ttl0 w0 t.
      (\<forall>h ev. \<not> store_fails e h ev) \<and> 0 < ttl0 \<and> 0 \<le> clock w0 \<and> t \<le> clock w0 + 1000 * ttl0
      \<and> \<not> truthy v \<and> w = (snd (setWithExpiry e key v ttl0 w0))\<lparr>clock := t\<rparr> \<longrightarrow>
        fst (getWithExpiry e key w) = Ret v
      \<and> asks_a_source e path w (snd (cachedQuery e key q path ttl w)))
 \<and> (\<forall>c w1 ms r.
      getWithExpiry e key w = (Ret c, w1) \<and> \<not> truthy c \<and> isFirebaseConfigured e
      \<and> q = Resolves ms r \<and> \<not> truthy r \<longrightarrow>
        fetched (trace (snd (cachedQuery e key q path ttl w)))
          = fetched (trace w) @ [BACKEND_URL e @ path])
 \<and> (\<forall>c w1 ms r ms' d w' t q2 path2 ttl2.
      getWithExpiry e key w = (Ret c, w1) \<and> \<not> truthy c
      \<and> (\<not> isFirebaseConfigured e \<or> (\<exists>ms x. q = Rejects ms x)
           \<or> (\<exists>ms r. q = Resolves ms r \<and> \<not> usable r))
      \<and> fetch e (BACKEND_URL e @ path) = Resolves ms r \<and> ok r \<and> json r = Resolves ms' d
      \<and> \<not> truthy d \<and> (\<forall>h ev. \<not> store_fails e h ev) \<and> 0 < ttl \<and> 0 \<le> clock w
      \<and> w' = snd (cachedQuery e key q path ttl w) \<and> t \<le> clock w' + 1000 * ttl \<longrightarrow>
        fst (cachedQuery e key q path ttl w) = Ret d
      \<and> store w' key = Some d
      \<and> fst (getWithExpiry e key (w'\<lparr>clock := t\<rparr>)) = Ret d
      \<and> asks_a_source e path2 (w'\<lparr>clock := t\<rparr>)
            (snd (cachedQuery e key q2 path2 ttl2 (w'\<lparr>clock := t\<rparr>))))"
proof (intro conjI allI impI)
  fix v ttl0 w0 t
  assume a: "(\<forall>h ev. \<not> store_fails e h ev) \<and> 0 < ttl0 \<and> 0 \<le> clock w0 \<and> t \<le> clock w0 + 1000 * ttl0
      \<and> \<not> truthy v \<and> w = (snd (setWithExpiry e key v ttl0 w0))\<lparr>clock := t\<rparr>"
  then show rd: "fst (getWithExpiry e key w) = Ret v"
    using read_after_write [of e ttl0 w0 t key v] by simp
  then obtain w1 where "getWithExpiry e key w = (Ret v, w1)"
    by (cases "getWithExpiry e key w") simp
  with a show "asks_a_source e path w (snd (cachedQuery e key q path ttl w))"
    by (intro miss_asks_a_source [of e key w v w1]) simp_all
next
  fix c w1 ms r
  assume a: "getWithExpiry e key w = (Ret c, w1) \<and> \<not> truthy c \<and> isFirebaseConfigured e
      \<and> q = Resolves ms r \<and> \<not> truthy r"
  then have out: "\<not> isFirebaseConfigured e \<or> (\<exists>ms x. q = Rejects ms x)
             \<or> (\<exists>ms r. q = Resolves ms r \<and> \<not> usable r)"
    using falsy_unusable by blast
  from a have miss: "getWithExpiry e key w = (Ret c, w1)" "\<not> truthy c" by simp_all
  from cachedQuery_fallback [OF miss out, of path ttl]
  obtain w2 where w2: "fetched (trace w2) = fetched (trace w1)"
    and eq: "cachedQuery e key q path ttl w =
               (case tryBackend e key path ttl w2 of
                  (Ret (Some d), w3) \<Rightarrow> (Ret d, w3)
                | (Ret None, w3) \<Rightarrow> (Ret JNull, w3)
                | (Throw x, w3) \<Rightarrow> (Throw x, w3)
                | (Beyond, w3) \<Rightarrow> (Beyond, w3))"
    by blast
  show "fetched (trace (snd (cachedQuery e key q path ttl w))) = fetched (trace w) @ [BACKEND_URL e @ path]"
    using cachedQuery_after_tryBackend [OF eq] tryBackend_sources [of e key path ttl w2] w2
      getWithExpiry_clock [OF miss(1)]
    by simp
next
  fix c w1 ms r ms' d w' t q2 path2 ttl2
  assume a: "getWithExpiry e key w = (Ret c, w1) \<and> \<not> truthy c
      \<and> (\<not> isFirebaseConfigured e \<or> (\<exists>ms x. q = Rejects ms x)
           \<or> (\<exists>ms r. q = Resolves ms r \<and> \<not> usable r))
      \<and> fetch e (BACKEND_URL e @ path) = Resolves ms r \<and> ok r \<and> json r = Resolves ms' d
      \<and> \<not> truthy d \<and> (\<forall>h ev. \<not> store_fails e h ev) \<and> 0 < ttl \<and> 0 \<le> clock w
      \<and> w' = snd (cachedQuery e key q path ttl w) \<and> t \<le> clock w' + 1000 * ttl"
  then have miss: "getWithExpiry e key w = (Ret c, w1)" "\<not> truthy c"
    and out: "\<not> isFirebaseConfigured e \<or> (\<exists>ms x. q = Rejects ms x)
           \<or> (\<exists>ms r. q = Resolves ms r \<and> \<not> usable r)"
    and works: "\<forall>h ev. \<not> store_fails e h ev"
    by simp_all
  from cachedQuery_fallback [OF miss out, of path ttl]
  obtain w2 where w2: "clock w1 \<le> clock w2"
    and eq: "cachedQuery e key q path ttl w =
               (case tryBackend e key path ttl w2 of
                  (Ret (Some d), w3) \<Rightarrow> (Ret d, w3)
                | (Ret None, w3) \<Rightarrow> (Ret JNull, w3)
                | (Throw x, w3) \<Rightarrow> (Throw x, w3)
                | (Beyond, w3) \<Rightarrow> (Beyond, w3))"
    by blast
  let ?w3 = "settled ms' ReadJson (settled ms (Fetch (BACKEND_URL e @ path)) w2)"
  have tb: "tryBackend e key path ttl w2 = (Ret (Some d), snd (setWithExpiry e key d ttl ?w3))"
    using a by (simp add: tryBackend_cases)
  show res: "fst (cachedQuery e key q path ttl w) = Ret d" using eq tb by simp
  have w': "w' = snd (setWithExpiry e key d ttl ?w3)"
    using a cachedQuery_after_tryBackend [OF eq] tb by simp
  show "store w' key = Some d" unfolding w' using works by (simp add: setWithExpiry_working)
  have c3: "0 \<le> clock ?w3" "clock w' = clock ?w3"
    using a w2 getWithExpiry_clock [OF miss(1)] setWithExpiry_sources [of e key d ttl ?w3]
    by (simp_all add: settled_def w')
  show rd: "fst (getWithExpiry e key (w'\<lparr>clock := t\<rparr>)) = Ret d"
    unfolding w' using works a c3 by (intro read_after_write) simp_all
  then obtain w4 where "getWithExpiry e key (w'\<lparr>clock := t\<rparr>) = (Ret d, w4)"
    by (cases "getWithExpiry e key (w'\<lparr>clock := t\<rparr>)") simp
  with a show "asks_a_source e path2 (w'\<lparr>clock := t\<rparr>)
            (snd (cachedQuery e key q2 path2 ttl2 (w'\<lparr>clock := t\<rparr>)))"
    by (intro miss_asks_a_source [of e key _ d w4]) simp_all
qed

theorem falsy_values_are_treated_as_absent_witness:
  "fst (getWithExpiry (browser working True backend_500) ''team_1234_v3''
          ((snd (setWithExpiry (browser working True backend_500) ''team_1234_v3'' (JNum 0) 3600 cold))
             \<lparr>clock := 1770000000000\<rparr>)) = Ret (JNum 0)
   \<and> asks_a_source (browser working True backend_500) ''/v3/site/teams/1234''
        ((snd (setWithExpiry (browser working True backend_500) ''team_1234_v3'' (JNum 0) 3600 cold))
             \<lparr>clock := 1770000000000\<rparr>)
        (snd (cachedQuery (browser working True backend_500) ''team_1234_v3''
                (Resolves 35 team_1234) ''/v3/site/teams/1234'' 3600
                ((snd (setWithExpiry (browser working True backend_500) ''team_1234_v3'' (JNum 0) 3600 cold))
                   \<lparr>clock := 1770000000000\<rparr>)))
   \<and> fetched (trace (snd (cachedQuery (browser working True (backend_200 team_1234)) ''team_1234_v3''
                (Resolves 35 JNull) ''/v3/site/teams/1234'' 3600 cold)))
       = [''https://api.ftcinsight.org/v3/site/v3/site/teams/1234'']
   \<and> fst (cachedQuery (browser working False (backend_200 (JBool False))) ''team_1234_v3''
                (Resolves 35 JNull) ''/v3/site/teams/1234'' 3600 cold) = Ret (JBool False)
   \<and> store (snd (cachedQuery (browser working False (backend_200 (JBool False))) ''team_1234_v3''
                (Resolves 35 JNull) ''/v3/site/teams/1234'' 3600 cold)) ''team_1234_v3''
       = Some (JBool False)
   \<and> asks_a_source (browser working False (backend_200 (JBool False))) ''/v3/site/teams/1234''
        ((snd (cachedQuery (browser working False (backend_200 (JBool False))) ''team_1234_v3''
                (Resolves 35 JNull) ''/v3/site/teams/1234'' 3600 cold))\<lparr>clock := 1770000001000\<rparr>)
        (snd (cachedQuery (browser working False (backend_200 (JBool False))) ''team_1234_v3''
                (Resolves 35 JNull) ''/v3/site/teams/1234'' 3600
                ((snd (cachedQuery (browser working False (backend_200 (JBool False))) ''team_1234_v3''
                   (Resolves 35 JNull) ''/v3/site/teams/1234'' 3600 cold))\<lparr>clock := 1770000001000\<rparr>)))"
proof -
  let ?e1 = "browser working True backend_500"
  let ?w1 = "(snd (setWithExpiry ?e1 ''team_1234_v3'' (JNum 0) 3600 cold))\<lparr>clock := 1770000000000\<rparr>"
  have h1: "(\<forall>h ev. \<not> store_fails ?e1 h ev) \<and> (0::int) < 3600 \<and> 0 \<le> clock cold
            \<and> 1770000000000 \<le> clock cold + 1000 * 3600 \<and> \<not> truthy (JNum 0) \<and> ?w1 = ?w1"
    by (simp add: browser_works cold_def)
  have a: "fst (getWithExpiry ?e1 ''team_1234_v3'' ?w1) = Ret (JNum 0)
         \<and> asks_a_source ?e1 ''/v3/site/teams/1234'' ?w1
             (snd (cachedQuery ?e1 ''team_1234_v3'' (Resolves 35 team_1234) ''/v3/site/teams/1234'' 3600 ?w1))"
    by (rule falsy_values_are_treated_as_absent [THEN conjunct1, rule_format, OF h1])
  let ?e2 = "browser working True (backend_200 team_1234)"
  have h2: "getWithExpiry ?e2 ''team_1234_v3'' cold
              = (Ret JNull, cold\<lparr>trace := [StoreGet ''team_1234_v3_expiry'']\<rparr>)
            \<and> \<not> truthy JNull \<and> isFirebaseConfigured ?e2
            \<and> Resolves 35 JNull = Resolves 35 JNull \<and> \<not> truthy JNull"
    by (simp add: cold_miss browser_configured)
  have b: "fetched (trace (snd (cachedQuery ?e2 ''team_1234_v3'' (Resolves 35 JNull)
                ''/v3/site/teams/1234'' 3600 cold)))
           = [''https://api.ftcinsight.org/v3/site/v3/site/teams/1234'']"
    using falsy_values_are_treated_as_absent [THEN conjunct2, THEN conjunct1, rule_format, OF h2,
        where path = "''/v3/site/teams/1234''" and ttl = 3600]
    by (simp add: cold_def BACKEND_URL_def browser_def)
  let ?e3 = "browser working False (backend_200 (JBool False))"
  let ?w3 = "snd (cachedQuery ?e3 ''team_1234_v3'' (Resolves 35 JNull) ''/v3/site/teams/1234'' 3600 cold)"
  have clk: "clock ?w3 = 1770000000082" by (simp add: run)
  have h3: "getWithExpiry ?e3 ''team_1234_v3'' cold
              = (Ret JNull, cold\<lparr>trace := [StoreGet ''team_1234_v3_expiry'']\<rparr>)
            \<and> \<not> truthy JNull
            \<and> (\<not> isFirebaseConfigured ?e3 \<or> (\<exists>ms x. Resolves 35 JNull = (Rejects ms x :: jsval promise))
                 \<or> (\<exists>ms r. Resolves 35 JNull = Resolves ms r \<and> \<not> usable r))
            \<and> fetch ?e3 (BACKEND_URL ?e3 @ ''/v3/site/teams/1234'')
                 = Resolves 80 \<lparr>ok = True, json = Resolves 2 (JBool False)\<rparr>
            \<and> ok \<lparr>ok = True, json = Resolves 2 (JBool False)\<rparr>
            \<and> json \<lparr>ok = True, json = Resolves 2 (JBool False)\<rparr> = Resolves 2 (JBool False)
            \<and> \<not> truthy (JBool False) \<and> (\<forall>h ev. \<not> store_fails ?e3 h ev)
            \<and> (0::int) < 3600 \<and> 0 \<le> clock cold \<and> ?w3 = ?w3
            \<and> 1770000001000 \<le> clock ?w3 + 1000 * 3600"
    by (simp add: cold_miss clk browser_works browser_configured)
       (simp add: browser_def backend_200_def cold_def)
  have c: "fst (cachedQuery ?e3 ''team_1234_v3'' (Resolves 35 JNull) ''/v3/site/teams/1234'' 3600 cold)
             = Ret (JBool False)
         \<and> store ?w3 ''team_1234_v3'' = Some (JBool False)
         \<and> fst (getWithExpiry ?e3 ''team_1234_v3'' (?w3\<lparr>clock := 1770000001000\<rparr>)) = Ret (JBool False)
         \<and> asks_a_source ?e3 ''/v3/site/teams/1234'' (?w3\<lparr>clock := 1770000001000\<rparr>)
             (snd (cachedQuery ?e3 ''team_1234_v3'' (Resolves 35 JNull) ''/v3/site/teams/1234'' 3600
                     (?w3\<lparr>clock := 1770000001000\<rparr>)))"
    by (rule falsy_values_are_treated_as_absent [THEN conjunct2, THEN conjunct2, rule_format, OF h3])
  from a b c show ?thesis by blast
qed

section \<open>The TTL cache\<close>

text \<open>
  Claim C1, as amended. On a store that works, a read of a key at any time up to the
  expiry of an entry just written with a positive time to live returns the value
  written; and when that value is truthy, the resolver returns it and asks neither
  source.
\<close>

theorem fresh_entry_is_read_and_served_when_truthy:
  assumes works: "\<forall>h ev. \<not> store_fails e h ev"
    and fresh: "0 < ttl" "0 \<le> clock w" "t \<le> clock w + 1000 * ttl"
    and w1: "w1 = (snd (setWithExpiry e key v ttl w))\<lparr>clock := t\<rparr>"
  shows "fst (getWithExpiry e key w1) = Ret v
       \<and> (truthy v \<longrightarrow>
            fst (cachedQuery e key q path ttl' w1) = Ret v
          \<and> fetched (trace (snd (cachedQuery e key q path ttl' w1))) = fetched (trace w1)
          \<and> queried (trace (snd (cachedQuery e key q path ttl' w1))) = queried (trace w1))"
proof -
  have rd: "fst (getWithExpiry e key w1) = Ret v"
    unfolding w1 using works fresh by (rule read_after_write)
  obtain w2 where g: "getWithExpiry e key w1 = (Ret v, w2)"
    using rd by (cases "getWithExpiry e key w1") simp
  have "cachedQuery e key q path ttl' w1 = (Ret v, w2)" if "truthy v"
    using g that by (rule cachedQuery_hit)
  with getWithExpiry_clock [OF g] rd show ?thesis by simp
qed

theorem fresh_entry_is_read_and_served_when_truthy_witness:
  "fst (getWithExpiry (browser working True backend_500) ''team_1234_v3''
          ((snd (setWithExpiry (browser working True backend_500) ''team_1234_v3'' team_1234 3600 cold))
             \<lparr>clock := 1770000000000\<rparr>))
     = Ret team_1234
   \<and> fst (cachedQuery (browser working True backend_500) ''team_1234_v3'' (Rejects 35 FirestoreError)
            ''/v3/site/teams/1234'' 3600
            ((snd (setWithExpiry (browser working True backend_500) ''team_1234_v3'' team_1234 3600 cold))
               \<lparr>clock := 1770000000000\<rparr>))
     = Ret team_1234
   \<and> fetched (trace (snd (cachedQuery (browser working True backend_500) ''team_1234_v3''
            (Rejects 35 FirestoreError) ''/v3/site/teams/1234'' 3600
            ((snd (setWithExpiry (browser working True backend_500) ''team_1234_v3'' team_1234 3600 cold))
               \<lparr>clock := 1770000000000\<rparr>)))) = []
   \<and> queried (trace (snd (cachedQuery (browser working True backend_500) ''team_1234_v3''
            (Rejects 35 FirestoreError) ''/v3/site/teams/1234'' 3600
            ((snd (setWithExpiry (browser working True backend_500) ''team_1234_v3'' team_1234 3600 cold))
               \<lparr>clock := 1770000000000\<rparr>)))) = 0"
proof -
  let ?e = "browser working True backend_500"
  let ?w1 = "(snd (setWithExpiry ?e ''team_1234_v3'' team_1234 3600 cold))\<lparr>clock := 1770000000000\<rparr>"
  have h: "(0::int) < 3600" "0 \<le> clock cold" "1770000000000 \<le> clock cold + 1000 * 3600"
    by (simp_all add: cold_def)
  have tv: "truthy team_1234" by (simp add: team_1234_def)
  have tr: "fetched (trace ?w1) = []" "queried (trace ?w1) = 0"
    by (simp_all add: setWithExpiry_working [OF browser_works] cold_def)
  note T = fresh_entry_is_read_and_served_when_truthy
    [OF browser_works h refl, where key = "''team_1234_v3''" and v = team_1234
       and q = "Rejects 35 FirestoreError" and path = "''/v3/site/teams/1234''" and ttl' = 3600]
  from T tv tr show ?thesis by simp
qed

text \<open>
  Claim C1 as stated fails for a falsy value: the number 0, freshly written, is read
  back, but the resolver calls the Firestore query and returns its result.
\<close>

theorem falsy_entry_is_not_served:
  "fst (getWithExpiry (browser working True backend_500) ''team_1234_v3''
          (snd (setWithExpiry (browser working True backend_500) ''team_1234_v3'' (JNum 0) 3600 cold)))
     = Ret (JNum 0)
   \<and> fst (cachedQuery (browser working True backend_500) ''team_1234_v3'' (Resolves 35 team_1234)
            ''/v3/site/teams/1234'' 3600
            (snd (setWithExpiry (browser working True backend_500) ''team_1234_v3'' (JNum 0) 3600 cold)))
     = Ret team_1234
   \<and> queried (trace (snd (setWithExpiry (browser working True backend_500) ''team_1234_v3'' (JNum 0) 3600 cold))) = 0
   \<and> queried (trace (snd (cachedQuery (browser working True backend_500) ''team_1234_v3''
            (Resolves 35 team_1234) ''/v3/site/teams/1234'' 3600
            (snd (setWithExpiry (browser working True backend_500) ''team_1234_v3'' (JNum 0) 3600 cold))))) = 1"
  by (simp add: run)

text \<open>
  Claim C6. On a store that works, with the clock after the epoch, a read of a key at
  any time after the expiry of its entry returns \<open>null\<close> and leaves neither the value
  record nor the expiry record in the store.
\<close>

theorem stale_entry_is_evicted:
  assumes works: "\<forall>h ev. \<not> store_fails e h ev"
    and entry: "0 < clock w" "0 \<le> ttl"
    and later: "clock w + 1000 * ttl < t"
    and w1: "w1 = (snd (setWithExpiry e key v ttl w))\<lparr>clock := t\<rparr>"
  shows "fst (getWithExpiry e key w1) = Ret JNull
       \<and> store (snd (getWithExpiry e key w1)) key = None
       \<and> store (snd (getWithExpiry e key w1)) (key @ ''_expiry'') = None"
  using assms
  by (simp add: setWithExpiry_working getWithExpiry_def io_bind_def idb_get_def idb_del_def
        io_ret_def)

theorem stale_entry_is_evicted_witness:
  "fst (getWithExpiry (browser working True backend_500) ''team_1234_v3''
          ((snd (setWithExpiry (browser working True backend_500) ''team_1234_v3'' team_1234 60 cold))
             \<lparr>clock := 1770000060001\<rparr>))
     = Ret JNull
   \<and> store (snd (getWithExpiry (browser working True backend_500) ''team_1234_v3''
          ((snd (setWithExpiry (browser working True backend_500) ''team_1234_v3'' team_1234 60 cold))
             \<lparr>clock := 1770000060001\<rparr>))) ''team_1234_v3'' = None
   \<and> store (snd (getWithExpiry (browser working True backend_500) ''team_1234_v3''
          ((snd (setWithExpiry (browser working True backend_500) ''team_1234_v3'' team_1234 60 cold))
             \<lparr>clock := 1770000060001\<rparr>))) ''team_1234_v3_expiry'' = None"
proof -
  have h: "0 < clock cold" "(0::int) \<le> 60" "clock cold + 1000 * 60 < 1770000060001"
    by (simp_all add: cold_def)
  from stale_entry_is_evicted [OF browser_works h refl, where key = "''team_1234_v3''" and v = team_1234]
  show ?thesis by simp
qed

text \<open>
  Claim C5. A failure of the store's \<open>get\<close> is not swallowed: \<open>getWithExpiry\<close> has no
  \<open>try\<close>, and \<open>cachedQuery\<close> calls it outside its own, so the caller of the resolver
  receives the exception.
\<close>

theorem read_failure_reaches_the_caller:
  "fst (cachedQuery (browser reads_fail True (backend_200 team_1234)) ''team_1234_v3''
          (Resolves 35 team_1234) ''/v3/site/teams/1234'' 3600 cold) = Throw StoreError"
  by (simp add: cachedQuery_def getWithExpiry_def io_bind_def idb_get_def browser_def
        reads_fail_def)

section \<open>The matches of a team in a season\<close>











section \<open>Cache keys and the schema version\<close>



























end
